theory Spec2Isabelle
  imports Complex_Main "HOL-Library.Word"
begin

section \<open>The protobuf stats reporter of the queue proxy\<close>

text \<open>
  A shallow embedding of \<^verbatim>\<open>pkg/queue/protobuf_stats_reporter.go\<close>: the reporter
  structure, its constructor, \<^verbatim>\<open>Report\<close>, \<^verbatim>\<open>ServeHTTP\<close> and \<^verbatim>\<open>httpError\<close>.
\<close>

subsection \<open>Types declared outside the file\<close>

text \<open>
  Go's \<^verbatim>\<open>float64\<close> is the type variable \<open>'f\<close> and \<^verbatim>\<open>time.Time\<close> the type variable
  \<open>'t\<close>: the file never looks inside a value of either type, it only hands them to the
  operations collected in the record \<open>extern\<close> below. A \<^verbatim>\<open>time.Duration\<close> is an
  \<^verbatim>\<open>int64\<close> count of nanoseconds, a \<^verbatim>\<open>[]byte\<close> a list of bytes.
\<close>

type_synonym byte = "8 word"

type_synonym Duration = "64 word"

text \<open>
  \<^verbatim>\<open>network.RequestStatsReport\<close>, the argument of \<^verbatim>\<open>Report\<close>: the four fields that
  \<^verbatim>\<open>Report\<close> reads.
\<close>

record 'f RequestStatsReport =
  AverageConcurrency :: 'f
  AverageProxiedConcurrency :: 'f
  RequestCount :: 'f
  ProxiedRequestCount :: 'f

text \<open>
  \<^verbatim>\<open>metrics.Stat\<close>, the record that is stored and marshalled: the six fields that
  \<^verbatim>\<open>Report\<close> sets. The fields \<^verbatim>\<open>RequestCount\<close> and \<^verbatim>\<open>ProxiedRequestCount\<close> of
  \<^verbatim>\<open>metrics.Stat\<close> carry the prefix \<open>Stat_\<close> here, since a field name is a constant
  and the report has fields of the same names.
\<close>

record 'f Stat =
  PodName :: string
  ProcessUptime :: 'f
  Stat_RequestCount :: 'f
  Stat_ProxiedRequestCount :: 'f
  AverageConcurrentRequests :: 'f
  AverageProxiedConcurrentRequests :: 'f

text \<open>
  What the file takes from the language and from other packages:
  \<^item> \<open>float64_quo\<close>: the operator \<^verbatim>\<open>/\<close> on two \<^verbatim>\<open>float64\<close> values;
  \<^item> \<open>time_Sub\<close>: \<^verbatim>\<open>t.Sub(u)\<close> of package \<^verbatim>\<open>time\<close>;
  \<^item> \<open>Duration_Seconds\<close>: \<^verbatim>\<open>d.Seconds()\<close> of package \<^verbatim>\<open>time\<close>;
  \<^item> \<open>proto_Marshal\<close>: \<^verbatim>\<open>proto.Marshal\<close>, returning \<open>Inr\<close> of the buffer, or
    \<open>Inl\<close> of the text \<^verbatim>\<open>err.Error()\<close> of its error when that is not \<^verbatim>\<open>nil\<close>;
  \<^item> \<open>ProtoAcceptContent\<close>: the string constant \<^verbatim>\<open>network.ProtoAcceptContent\<close>.
\<close>

record ('f, 't) extern =
  float64_quo :: "'f \<Rightarrow> 'f \<Rightarrow> 'f"
  time_Sub :: "'t \<Rightarrow> 't \<Rightarrow> Duration"
  Duration_Seconds :: "Duration \<Rightarrow> 'f"
  proto_Marshal :: "'f Stat \<Rightarrow> string + byte list"
  ProtoAcceptContent :: string

text \<open>
  \<^verbatim>\<open>time.Since(t)\<close> is \<^verbatim>\<open>time.Now().Sub(t)\<close>; the reading of the clock is the argument
  \<open>now\<close>.
\<close>

definition time_Since :: "('f, 't) extern \<Rightarrow> 't \<Rightarrow> 't \<Rightarrow> Duration" where
  "time_Since ex now t = time_Sub ex now t"

definition StatusOK :: nat where
  "StatusOK = 200"

definition StatusInternalServerError :: nat where
  "StatusInternalServerError = 500"

subsection \<open>The cell: \<^verbatim>\<open>atomic.Value\<close>\<close>

text \<open>
  An \<^verbatim>\<open>atomic.Value\<close> holds nothing (its zero value, for which \<^verbatim>\<open>Load\<close> returns
  \<^verbatim>\<open>nil\<close>) or the value of the last \<^verbatim>\<open>Store\<close>. The only values this file stores are
  of type \<^verbatim>\<open>metrics.Stat\<close>, so the type assertion \<^verbatim>\<open>stat.(metrics.Stat)\<close> of
  \<^verbatim>\<open>ServeHTTP\<close> is the identity on what \<^verbatim>\<open>Load\<close> returns.
\<close>

type_synonym 'a atomic_Value = "'a option"

definition Store :: "'a atomic_Value \<Rightarrow> 'a \<Rightarrow> 'a atomic_Value" where
  "Store v x = Some x"

definition Load :: "'a atomic_Value \<Rightarrow> 'a option" where
  "Load v = v"

subsection \<open>The reporter\<close>

definition contentTypeHeader :: string where
  "contentTypeHeader = ''Content-Type''"

record ('f, 't) ProtobufStatsReporter =
  startTime :: 't
  stat :: "'f Stat atomic_Value"
  podName :: string
  reportingPeriodSeconds :: 'f

text \<open>
  \<^verbatim>\<open>NewProtobufStatsReporter(pod, reportingPeriod)\<close>; \<open>now\<close> is what \<^verbatim>\<open>time.Now()\<close>
  returns. The field \<^verbatim>\<open>stat\<close> is not mentioned by the composite literal and keeps its
  zero value.
\<close>

definition NewProtobufStatsReporter ::
  "('f, 't) extern \<Rightarrow> 't \<Rightarrow> string \<Rightarrow> Duration \<Rightarrow> ('f, 't) ProtobufStatsReporter" where
  "NewProtobufStatsReporter ex now pod reportingPeriod =
     \<lparr>startTime = now,
      stat = None,
      podName = pod,
      reportingPeriodSeconds = Duration_Seconds ex reportingPeriod\<rparr>"

text \<open>
  \<^verbatim>\<open>r.Report(stats)\<close>: the reporter is changed in place in Go and returned here; \<open>now\<close>
  is the reading of the clock inside \<^verbatim>\<open>time.Since\<close>.
\<close>

definition Report ::
  "('f, 't) extern \<Rightarrow> 't \<Rightarrow> ('f, 't) ProtobufStatsReporter \<Rightarrow> 'f RequestStatsReport
     \<Rightarrow> ('f, 't) ProtobufStatsReporter" where
  "Report ex now r stats =
     r\<lparr>stat := Store (stat r)
       \<lparr>PodName = podName r,
        ProcessUptime = Duration_Seconds ex (time_Since ex now (startTime r)),
        Stat_RequestCount = float64_quo ex (RequestCount stats) (reportingPeriodSeconds r),
        Stat_ProxiedRequestCount =
          float64_quo ex (ProxiedRequestCount stats) (reportingPeriodSeconds r),
        AverageConcurrentRequests = AverageConcurrency stats,
        AverageProxiedConcurrentRequests = AverageProxiedConcurrency stats\<rparr>\<rparr>"

subsection \<open>Serving\<close>

text \<open>
  What \<^verbatim>\<open>ServeHTTP\<close> does is a sequence of calls into packages outside the file: on
  the response writer \<^verbatim>\<open>w\<close> (\<^verbatim>\<open>w.Header()\<close>, \<^verbatim>\<open>header.Set(k, v)\<close> on the header map
  that \<^verbatim>\<open>w.Header()\<close> returned, \<^verbatim>\<open>w.Write(b)\<close>), \<^verbatim>\<open>http.Error(w, msg, code)\<close> and
  \<^verbatim>\<open>proto.Marshal(&data)\<close>. A response writer is modelled by the list of the calls made
  so far, oldest first.
\<close>

datatype 'f call =
    w_Header
  | Marshal_call "'f Stat"
  | header_Set string string
  | w_Write "byte list"
  | http_Error string nat

type_synonym 'f ResponseWriter = "'f call list"

definition httpError :: "'f ResponseWriter \<Rightarrow> string \<Rightarrow> 'f ResponseWriter" where
  "httpError rsp errMsg =
     rsp @ [http_Error
       (''An error has occurred while serving metrics:'' @ [CHR 0x0A, CHR 0x0A] @ errMsg)
       StatusInternalServerError]"

text \<open>
  \<^verbatim>\<open>r.ServeHTTP(w, req)\<close>; the request \<^verbatim>\<open>req\<close> is not read. The method assigns to no
  field of the reporter.
\<close>

definition ServeHTTP ::
  "('f, 't) extern \<Rightarrow> ('f, 't) ProtobufStatsReporter \<Rightarrow> 'f ResponseWriter
     \<Rightarrow> 'f ResponseWriter" where
  "ServeHTTP ex r w =
     (case Load (stat r) of
        None \<Rightarrow> httpError w ''no metrics available yet''
      | Some data \<Rightarrow>
          (case proto_Marshal ex data of
             Inl err \<Rightarrow> httpError (w @ [w_Header, Marshal_call data]) err
           | Inr buffer \<Rightarrow>
               w @ [w_Header, Marshal_call data,
                    header_Set contentTypeHeader (ProtoAcceptContent ex),
                    w_Write buffer]))"

text \<open>
  What a client sees of a writer's calls, by the contract of \<^verbatim>\<open>http.ResponseWriter\<close>:
  the status is the code of \<^verbatim>\<open>http.Error\<close> when that call comes before any
  \<^verbatim>\<open>Write\<close>, and \<^verbatim>\<open>http.StatusOK\<close> otherwise (a first \<^verbatim>\<open>Write\<close> without
  \<^verbatim>\<open>WriteHeader\<close> sends it); \<open>written\<close> is what the handler itself wrote with
  \<^verbatim>\<open>w.Write\<close>; \<open>error_messages\<close> are the texts it replied with through
  \<^verbatim>\<open>http.Error\<close>; \<open>header_sets\<close> are its assignments to the header.
\<close>

fun status :: "'f call list \<Rightarrow> nat" where
  "status [] = StatusOK"
| "status (w_Write b # cs) = StatusOK"
| "status (http_Error msg code # cs) = code"
| "status (w_Header # cs) = status cs"
| "status (Marshal_call d # cs) = status cs"
| "status (header_Set k v # cs) = status cs"

fun written :: "'f call list \<Rightarrow> byte list" where
  "written [] = []"
| "written (w_Write b # cs) = b @ written cs"
| "written (w_Header # cs) = written cs"
| "written (Marshal_call d # cs) = written cs"
| "written (header_Set k v # cs) = written cs"
| "written (http_Error msg code # cs) = written cs"

fun error_messages :: "'f call list \<Rightarrow> string list" where
  "error_messages [] = []"
| "error_messages (http_Error msg code # cs) = msg # error_messages cs"
| "error_messages (w_Header # cs) = error_messages cs"
| "error_messages (Marshal_call d # cs) = error_messages cs"
| "error_messages (header_Set k v # cs) = error_messages cs"
| "error_messages (w_Write b # cs) = error_messages cs"

fun header_sets :: "'f call list \<Rightarrow> (string \<times> string) list" where
  "header_sets [] = []"
| "header_sets (header_Set k v # cs) = (k, v) # header_sets cs"
| "header_sets (w_Header # cs) = header_sets cs"
| "header_sets (Marshal_call d # cs) = header_sets cs"
| "header_sets (w_Write b # cs) = header_sets cs"
| "header_sets (http_Error msg code # cs) = header_sets cs"

fun marshalled :: "'f call list \<Rightarrow> 'f Stat list" where
  "marshalled [] = []"
| "marshalled (Marshal_call d # cs) = d # marshalled cs"
| "marshalled (w_Header # cs) = marshalled cs"
| "marshalled (header_Set k v # cs) = marshalled cs"
| "marshalled (w_Write b # cs) = marshalled cs"
| "marshalled (http_Error msg code # cs) = marshalled cs"

text \<open>
  The body of the response. \<^verbatim>\<open>w.Write(b)\<close> appends \<open>b\<close> to it. \<^verbatim>\<open>http.Error\<close> of
  package \<^verbatim>\<open>net/http\<close> sends its status and then writes its message with
  \<^verbatim>\<open>fmt.Fprintln\<close>: the bytes of the message followed by one newline. A Go string is
  its sequence of bytes, which \<open>bytes_of\<close> reads off.
\<close>

definition bytes_of :: "string \<Rightarrow> byte list" where
  "bytes_of str = map of_char str"

fun body :: "'f call list \<Rightarrow> byte list" where
  "body [] = []"
| "body (w_Write b # cs) = b @ body cs"
| "body (http_Error msg code # cs) = bytes_of msg @ [0x0A] @ body cs"
| "body (w_Header # cs) = body cs"
| "body (Marshal_call d # cs) = body cs"
| "body (header_Set k v # cs) = body cs"


subsection \<open>The life of a reporter\<close>

text \<open>
  The callers of a reporter invoke \<^verbatim>\<open>Report\<close> (with a reading of the clock and a
  report) and \<^verbatim>\<open>ServeHTTP\<close> (with a fresh response writer) in some order. \<open>run\<close>
  performs a sequence of invocations one after the other and returns the reporter
  together with the responses of the \<^verbatim>\<open>ServeHTTP\<close> calls, in order.
\<close>

datatype ('f, 't) invocation =
    Call_Report 't "'f RequestStatsReport"
  | Call_ServeHTTP

definition invoke ::
  "('f, 't) extern \<Rightarrow> ('f, 't) ProtobufStatsReporter \<Rightarrow> ('f, 't) invocation
     \<Rightarrow> ('f, 't) ProtobufStatsReporter \<times> 'f ResponseWriter list" where
  "invoke ex r c =
     (case c of
        Call_Report now stats \<Rightarrow> (Report ex now r stats, [])
      | Call_ServeHTTP \<Rightarrow> (r, [ServeHTTP ex r []]))"

primrec run ::
  "('f, 't) extern \<Rightarrow> ('f, 't) ProtobufStatsReporter \<Rightarrow> ('f, 't) invocation list
     \<Rightarrow> ('f, 't) ProtobufStatsReporter \<times> 'f ResponseWriter list" where
  "run ex r [] = (r, [])"
| "run ex r (c # cs) =
     (case invoke ex r c of
        (r', out) \<Rightarrow> (case run ex r' cs of (r'', outs) \<Rightarrow> (r'', out @ outs)))"

subsection \<open>A concrete instance\<close>

text \<open>
  Stand-ins for the outside operations, used to instantiate the theorems below: the
  numbers are reals and the clock counts nanoseconds; the encoder refuses a record with
  an empty pod name and otherwise returns one byte, the length of the name.
\<close>

definition toy_Marshal :: "real Stat \<Rightarrow> string + byte list" where
  "toy_Marshal s =
     (if PodName s = [] then Inl ''empty pod name''
      else Inr [of_nat (length (PodName s))])"

definition toy :: "(real, nat) extern" where
  "toy =
     \<lparr>float64_quo = (\<lambda>x y. x / y),
      time_Sub = (\<lambda>t u. of_nat (t - u)),
      Duration_Seconds = (\<lambda>d. real_of_int (sint d) / 1000000000),
      proto_Marshal = toy_Marshal,
      ProtoAcceptContent = ''application/protobuf''\<rparr>"

definition report_120 :: "real RequestStatsReport" where
  "report_120 =
     \<lparr>AverageConcurrency = 2, AverageProxiedConcurrency = 0,
      RequestCount = 120, ProxiedRequestCount = 0\<rparr>"

definition report_30 :: "real RequestStatsReport" where
  "report_30 =
     \<lparr>AverageConcurrency = 1, AverageProxiedConcurrency = 1,
      RequestCount = 30, ProxiedRequestCount = 6\<rparr>"

section \<open>Properties\<close>

subsection \<open>Fields that no method assigns\<close>

lemma Report_fixed:
  "podName (Report ex now r stats) = podName r"
  "startTime (Report ex now r stats) = startTime r"
  "reportingPeriodSeconds (Report ex now r stats) = reportingPeriodSeconds r"
  by (simp_all add: Report_def)

lemma invoke_fixed:
  "podName (fst (invoke ex r c)) = podName r"
  "startTime (fst (invoke ex r c)) = startTime r"
  "reportingPeriodSeconds (fst (invoke ex r c)) = reportingPeriodSeconds r"
  by (simp_all add: invoke_def Report_fixed split: invocation.split)

lemma run_fixed:
  "podName (fst (run ex r cs)) = podName r \<and>
   startTime (fst (run ex r cs)) = startTime r \<and>
   reportingPeriodSeconds (fst (run ex r cs)) = reportingPeriodSeconds r"
proof (induction cs arbitrary: r)
  case Nil
  show ?case by simp
next
  case (Cons c cs)
  obtain r' out where i: "invoke ex r c = (r', out)"
    by (cases "invoke ex r c")
  obtain r'' outs where s: "run ex r' cs = (r'', outs)"
    by (cases "run ex r' cs")
  from i have "r' = fst (invoke ex r c)" by simp
  then have "podName r' = podName r" "startTime r' = startTime r"
    "reportingPeriodSeconds r' = reportingPeriodSeconds r"
    by (simp_all add: invoke_fixed)
  with Cons.IH [of r'] i s show ?case by simp
qed

lemma New_fields:
  "podName (NewProtobufStatsReporter ex t0 pod P) = pod"
  "startTime (NewProtobufStatsReporter ex t0 pod P) = t0"
  "reportingPeriodSeconds (NewProtobufStatsReporter ex t0 pod P) = Duration_Seconds ex P"
  "stat (NewProtobufStatsReporter ex t0 pod P) = None"
  by (simp_all add: NewProtobufStatsReporter_def)

lemma reached_fields:
  "podName (fst (run ex (NewProtobufStatsReporter ex t0 pod P) cs)) = pod"
  "startTime (fst (run ex (NewProtobufStatsReporter ex t0 pod P) cs)) = t0"
  "reportingPeriodSeconds (fst (run ex (NewProtobufStatsReporter ex t0 pod P) cs))
     = Duration_Seconds ex P"
  using run_fixed [of ex "NewProtobufStatsReporter ex t0 pod P" cs]
  by (simp_all add: New_fields)

lemma run_append:
  "run ex r (xs @ ys) =
     (case run ex r xs of
        (r', o1) \<Rightarrow> (case run ex r' ys of (r'', o2) \<Rightarrow> (r'', o1 @ o2)))"
proof (induction xs arbitrary: r)
  case Nil
  show ?case by (simp split: prod.split)
next
  case (Cons x xs)
  show ?case by (simp add: Cons.IH split: prod.split)
qed

lemma run_snoc_Report:
  "fst (run ex r (pre @ [Call_Report now R])) = Report ex now (fst (run ex r pre)) R"
  by (simp add: run_append invoke_def split: prod.split)

subsection \<open>Ingestion\<close>

text \<open>
  Claim C1 (rate computation). Take a reporter constructed with the reporting period
  \<open>P\<close>, after any invocations \<open>cs\<close>. After \<^verbatim>\<open>Report(R)\<close> the cell holds a snapshot
  whose \<^verbatim>\<open>RequestCount\<close> is the quotient \<^verbatim>\<open>R.RequestCount / P.Seconds()\<close> and whose
  \<^verbatim>\<open>ProxiedRequestCount\<close> is the quotient \<^verbatim>\<open>R.ProxiedRequestCount / P.Seconds()\<close>:
  the result of the one \<^verbatim>\<open>float64\<close> division, with nothing applied to it afterwards.
\<close>

theorem Report_rates:
  "\<exists>s. Load (stat (Report ex now
           (fst (run ex (NewProtobufStatsReporter ex t0 pod P) cs)) R)) = Some s \<and>
       Stat_RequestCount s = float64_quo ex (RequestCount R) (Duration_Seconds ex P) \<and>
       Stat_ProxiedRequestCount s =
         float64_quo ex (ProxiedRequestCount R) (Duration_Seconds ex P)"
  by (simp add: Report_def Load_def Store_def reached_fields)

text \<open>
  Claim C2 (pass-through). For every reporter and every report, the snapshot that
  \<^verbatim>\<open>Report\<close> publishes has the report's \<^verbatim>\<open>AverageConcurrency\<close> as its
  \<^verbatim>\<open>AverageConcurrentRequests\<close> and the report's \<^verbatim>\<open>AverageProxiedConcurrency\<close> as its
  \<^verbatim>\<open>AverageProxiedConcurrentRequests\<close>, whatever the reporting period and the
  division are.
\<close>

theorem Report_pass_through:
  "\<exists>s. Load (stat (Report ex now r R)) = Some s \<and>
       AverageConcurrentRequests s = AverageConcurrency R \<and>
       AverageProxiedConcurrentRequests s = AverageProxiedConcurrency R"
  by (simp add: Report_def Load_def Store_def)

text \<open>
  Claim C8 (no error path). \<^verbatim>\<open>Report\<close> returns for every report, of whatever
  \<^verbatim>\<open>float64\<close> values, and for every reporter: it has one result and that result is the
  reporter whose cell holds the snapshot built from the report's values as they are (the
  two counts divided by the period, the two averages copied), with no other field of the
  reporter changed. No value of the report is compared, tested or replaced.
\<close>

theorem Report_total:
  "Report ex now r R =
     r\<lparr>stat := Some
       \<lparr>PodName = podName r,
        ProcessUptime = Duration_Seconds ex (time_Sub ex now (startTime r)),
        Stat_RequestCount = float64_quo ex (RequestCount R) (reportingPeriodSeconds r),
        Stat_ProxiedRequestCount =
          float64_quo ex (ProxiedRequestCount R) (reportingPeriodSeconds r),
        AverageConcurrentRequests = AverageConcurrency R,
        AverageProxiedConcurrentRequests = AverageProxiedConcurrency R\<rparr>\<rparr> \<and>
   Load (stat (Report ex now r R)) \<noteq> None \<and>
   fst (invoke ex r (Call_Report now R)) = Report ex now r R \<and>
   snd (invoke ex r (Call_Report now R)) = []"
  by (simp add: Report_def Load_def Store_def time_Since_def invoke_def)

subsection \<open>Serving\<close>

lemma header_sets_append:
  "header_sets (xs @ ys) = header_sets xs @ header_sets ys"
  by (induction xs rule: header_sets.induct) simp_all

lemma ServeHTTP_empty:
  "Load (stat r) = None \<Longrightarrow>
   ServeHTTP ex r w =
     w @ [http_Error
       (''An error has occurred while serving metrics:'' @ [CHR 0x0A, CHR 0x0A] @
        ''no metrics available yet'') 500]"
  by (simp add: ServeHTTP_def httpError_def StatusInternalServerError_def)

lemma ServeHTTP_encode_error:
  "Load (stat r) = Some s \<Longrightarrow> proto_Marshal ex s = Inl e \<Longrightarrow>
   ServeHTTP ex r w =
     w @ [w_Header, Marshal_call s,
          http_Error
            (''An error has occurred while serving metrics:'' @ [CHR 0x0A, CHR 0x0A] @ e)
            500]"
  by (simp add: ServeHTTP_def httpError_def StatusInternalServerError_def)

lemma ServeHTTP_encoded:
  "Load (stat r) = Some s \<Longrightarrow> proto_Marshal ex s = Inr buf \<Longrightarrow>
   ServeHTTP ex r w =
     w @ [w_Header, Marshal_call s,
          header_Set ''Content-Type'' (ProtoAcceptContent ex), w_Write buf]"
  by (simp add: ServeHTTP_def contentTypeHeader_def)

lemma run_only_ServeHTTP:
  "run ex r (replicate n Call_ServeHTTP) = (r, replicate n (ServeHTTP ex r []))"
  by (induction n) (simp_all add: invoke_def)

text \<open>
  Claim C3 (cold start), amended. On a reporter as \<^verbatim>\<open>NewProtobufStatsReporter\<close>
  returns it, any number \<open>n\<close> of \<^verbatim>\<open>ServeHTTP\<close> calls with no \<^verbatim>\<open>Report\<close> before
  them leave the reporter as it is, and each of them does one thing only: it calls
  \<^verbatim>\<open>http.Error\<close> with the status 500 and the text
  \<^verbatim>\<open>"An error has occurred while serving metrics:\n\n"\<close> followed by
  \<^verbatim>\<open>"no metrics available yet"\<close>. The body of the response is that text followed by
  one newline. The handler does not call \<^verbatim>\<open>proto.Marshal\<close> and writes no bytes of its
  own.

  The body is not the text alone: at the concrete reporter below it differs from the
  prefix followed by \<^verbatim>\<open>"no metrics available yet"\<close>.
\<close>

theorem cold_start:
  "run ex (NewProtobufStatsReporter ex t0 pod P) (replicate n Call_ServeHTTP) =
     (NewProtobufStatsReporter ex t0 pod P,
      replicate n
        [http_Error
           (''An error has occurred while serving metrics:'' @ [CHR 0x0A, CHR 0x0A] @
            ''no metrics available yet'') 500]) \<and>
   ServeHTTP ex (NewProtobufStatsReporter ex t0 pod P) w =
     w @ [http_Error
       (''An error has occurred while serving metrics:'' @ [CHR 0x0A, CHR 0x0A] @
        ''no metrics available yet'') 500] \<and>
   status (ServeHTTP ex (NewProtobufStatsReporter ex t0 pod P) []) = 500 \<and>
   body (ServeHTTP ex (NewProtobufStatsReporter ex t0 pod P) []) =
     bytes_of
       (''An error has occurred while serving metrics:'' @ [CHR 0x0A, CHR 0x0A] @
        ''no metrics available yet'') @ [0x0A] \<and>
   marshalled (ServeHTTP ex (NewProtobufStatsReporter ex t0 pod P) []) = [] \<and>
   written (ServeHTTP ex (NewProtobufStatsReporter ex t0 pod P) []) = []"
proof -
  have e: "Load (stat (NewProtobufStatsReporter ex t0 pod P)) = None"
    by (simp add: Load_def New_fields)
  show ?thesis
    by (simp add: run_only_ServeHTTP ServeHTTP_empty [OF e])
qed

theorem cold_start_body_counterexample:
  "Load (stat (NewProtobufStatsReporter toy 5 ''pod-a'' 60000000000)) = None \<and>
   body (ServeHTTP toy (NewProtobufStatsReporter toy 5 ''pod-a'' 60000000000) []) \<noteq>
     bytes_of
       (''An error has occurred while serving metrics:'' @ [CHR 0x0A, CHR 0x0A] @
        ''no metrics available yet'')"
proof -
  have e: "Load (stat (NewProtobufStatsReporter toy 5 ''pod-a'' 60000000000)) = None"
    by (simp add: Load_def New_fields)
  have c: "body (ServeHTTP toy (NewProtobufStatsReporter toy 5 ''pod-a'' 60000000000) []) \<noteq>
     bytes_of
       (''An error has occurred while serving metrics:'' @ [CHR 0x0A, CHR 0x0A] @
        ''no metrics available yet'')"
    by (simp add: ServeHTTP_empty [OF e] bytes_of_def)
  from e c show ?thesis
    by simp
qed

text \<open>
  Claim C4 (success). When the cell holds a snapshot \<open>s\<close> and \<^verbatim>\<open>proto.Marshal\<close> returns
  the buffer \<open>buf\<close> for it, \<^verbatim>\<open>ServeHTTP\<close> sets the header \<^verbatim>\<open>Content-Type\<close> to
  \<^verbatim>\<open>network.ProtoAcceptContent\<close> and then writes \<open>buf\<close>, and that is all it does to
  the response: the body it writes is exactly \<open>buf\<close>, it sets no status and replies
  with no error, so the status is the implicit 200 of the first \<^verbatim>\<open>Write\<close>.
\<close>

theorem serve_success:
  assumes "Load (stat r) = Some s" and "proto_Marshal ex s = Inr buf"
  shows "ServeHTTP ex r w =
           w @ [w_Header, Marshal_call s,
                header_Set ''Content-Type'' (ProtoAcceptContent ex), w_Write buf] \<and>
         header_sets (ServeHTTP ex r []) = [(''Content-Type'', ProtoAcceptContent ex)] \<and>
         written (ServeHTTP ex r []) = buf \<and>
         error_messages (ServeHTTP ex r []) = [] \<and>
         status (ServeHTTP ex r []) = 200"
  by (simp add: ServeHTTP_encoded [OF assms] StatusOK_def)

theorem serve_success_witness:
  "Load (stat (Report toy 5 (NewProtobufStatsReporter toy 5 ''pod-a'' 60000000000)
           report_120)) =
     Some \<lparr>PodName = ''pod-a'', ProcessUptime = 0, Stat_RequestCount = 2,
           Stat_ProxiedRequestCount = 0, AverageConcurrentRequests = 2,
           AverageProxiedConcurrentRequests = 0\<rparr> \<and>
   proto_Marshal toy
     \<lparr>PodName = ''pod-a'', ProcessUptime = 0, Stat_RequestCount = 2,
      Stat_ProxiedRequestCount = 0, AverageConcurrentRequests = 2,
      AverageProxiedConcurrentRequests = 0\<rparr> = Inr [5] \<and>
   ServeHTTP toy
     (Report toy 5 (NewProtobufStatsReporter toy 5 ''pod-a'' 60000000000) report_120) [] =
     [w_Header,
      Marshal_call
        \<lparr>PodName = ''pod-a'', ProcessUptime = 0, Stat_RequestCount = 2,
         Stat_ProxiedRequestCount = 0, AverageConcurrentRequests = 2,
         AverageProxiedConcurrentRequests = 0\<rparr>,
      header_Set ''Content-Type'' ''application/protobuf'', w_Write [5]] \<and>
   status (ServeHTTP toy
     (Report toy 5 (NewProtobufStatsReporter toy 5 ''pod-a'' 60000000000) report_120) [])
     = 200"
proof -
  let ?r = "Report toy 5 (NewProtobufStatsReporter toy 5 ''pod-a'' 60000000000) report_120"
  let ?s = "\<lparr>PodName = ''pod-a'', ProcessUptime = 0::real, Stat_RequestCount = 2,
      Stat_ProxiedRequestCount = 0, AverageConcurrentRequests = 2,
      AverageProxiedConcurrentRequests = 0\<rparr>"
  have a: "Load (stat ?r) = Some ?s"
    by (simp add: Report_def NewProtobufStatsReporter_def Load_def Store_def toy_def
        report_120_def time_Since_def)
  have b: "proto_Marshal toy ?s = Inr [5]"
    by (simp add: toy_def toy_Marshal_def)
  have c: "ProtoAcceptContent toy = ''application/protobuf''"
    by (simp add: toy_def)
  from serve_success [OF a b, of "[]"] a b c show ?thesis
    by (simp add: StatusOK_def)
qed

text \<open>
  Claim C5 (encode error), amended. When the cell holds a snapshot \<open>s\<close> and
  \<^verbatim>\<open>proto.Marshal\<close> fails on it with the error text \<open>e\<close>, \<^verbatim>\<open>ServeHTTP\<close> calls
  \<^verbatim>\<open>http.Error\<close> with the status 500 and the text
  \<^verbatim>\<open>"An error has occurred while serving metrics:\n\n"\<close> followed by \<open>e\<close>; the body of
  the response is that text followed by one newline, and the handler writes no bytes of
  its own. The reporter is the same after the call, cell included, so whatever
  invocations \<open>cs\<close> follow run as they would have run without the failed call.

  The body is not the text alone: at the concrete reporter below, whose encoder fails
  with \<^verbatim>\<open>"empty pod name"\<close>, it differs from the prefix followed by that text.
\<close>

theorem serve_encode_error:
  assumes "Load (stat r) = Some s" and "proto_Marshal ex s = Inl e"
  shows "ServeHTTP ex r w =
           w @ [w_Header, Marshal_call s,
                http_Error
                  (''An error has occurred while serving metrics:'' @
                   [CHR 0x0A, CHR 0x0A] @ e) 500] \<and>
         status (ServeHTTP ex r []) = 500 \<and>
         body (ServeHTTP ex r []) =
           bytes_of
             (''An error has occurred while serving metrics:'' @ [CHR 0x0A, CHR 0x0A] @ e) @
           [0x0A] \<and>
         written (ServeHTTP ex r []) = [] \<and>
         invoke ex r Call_ServeHTTP = (r, [ServeHTTP ex r []]) \<and>
         run ex r (Call_ServeHTTP # cs) =
           (fst (run ex r cs), ServeHTTP ex r [] # snd (run ex r cs))"
  by (simp add: ServeHTTP_encode_error [OF assms] invoke_def split: prod.split)

theorem serve_encode_error_witness:
  "Load (stat (Report toy 5 (NewProtobufStatsReporter toy 5 [] 60000000000) report_120)) =
     Some \<lparr>PodName = [], ProcessUptime = 0, Stat_RequestCount = 2,
           Stat_ProxiedRequestCount = 0, AverageConcurrentRequests = 2,
           AverageProxiedConcurrentRequests = 0\<rparr> \<and>
   proto_Marshal toy
     \<lparr>PodName = [], ProcessUptime = 0, Stat_RequestCount = 2,
      Stat_ProxiedRequestCount = 0, AverageConcurrentRequests = 2,
      AverageProxiedConcurrentRequests = 0\<rparr> = Inl ''empty pod name'' \<and>
   ServeHTTP toy
     (Report toy 5 (NewProtobufStatsReporter toy 5 [] 60000000000) report_120) [] =
     [w_Header,
      Marshal_call
        \<lparr>PodName = [], ProcessUptime = 0, Stat_RequestCount = 2,
         Stat_ProxiedRequestCount = 0, AverageConcurrentRequests = 2,
         AverageProxiedConcurrentRequests = 0\<rparr>,
      http_Error
        (''An error has occurred while serving metrics:'' @ [CHR 0x0A, CHR 0x0A] @
         ''empty pod name'') 500] \<and>
   body (ServeHTTP toy
     (Report toy 5 (NewProtobufStatsReporter toy 5 [] 60000000000) report_120) []) =
     bytes_of
       (''An error has occurred while serving metrics:'' @ [CHR 0x0A, CHR 0x0A] @
        ''empty pod name'') @ [0x0A] \<and>
   fst (invoke toy
     (Report toy 5 (NewProtobufStatsReporter toy 5 [] 60000000000) report_120)
     Call_ServeHTTP) =
     Report toy 5 (NewProtobufStatsReporter toy 5 [] 60000000000) report_120"
proof -
  let ?r = "Report toy 5 (NewProtobufStatsReporter toy 5 [] 60000000000) report_120"
  let ?s = "\<lparr>PodName = [], ProcessUptime = 0::real, Stat_RequestCount = 2,
      Stat_ProxiedRequestCount = 0, AverageConcurrentRequests = 2,
      AverageProxiedConcurrentRequests = 0\<rparr>"
  have a: "Load (stat ?r) = Some ?s"
    by (simp add: Report_def NewProtobufStatsReporter_def Load_def Store_def toy_def
        report_120_def time_Since_def)
  have b: "proto_Marshal toy ?s = Inl ''empty pod name''"
    by (simp add: toy_def toy_Marshal_def)
  from serve_encode_error [OF a b, of "[]" "[]"] a b show ?thesis
    by simp
qed

theorem serve_encode_error_body_counterexample:
  "Load (stat (Report toy 5 (NewProtobufStatsReporter toy 5 [] 60000000000) report_120)) =
     Some \<lparr>PodName = [], ProcessUptime = 0, Stat_RequestCount = 2,
           Stat_ProxiedRequestCount = 0, AverageConcurrentRequests = 2,
           AverageProxiedConcurrentRequests = 0\<rparr> \<and>
   proto_Marshal toy
     \<lparr>PodName = [], ProcessUptime = 0, Stat_RequestCount = 2,
      Stat_ProxiedRequestCount = 0, AverageConcurrentRequests = 2,
      AverageProxiedConcurrentRequests = 0\<rparr> = Inl ''empty pod name'' \<and>
   body (ServeHTTP toy
     (Report toy 5 (NewProtobufStatsReporter toy 5 [] 60000000000) report_120) []) \<noteq>
     bytes_of
       (''An error has occurred while serving metrics:'' @ [CHR 0x0A, CHR 0x0A] @
        ''empty pod name'')"
proof -
  let ?r = "Report toy 5 (NewProtobufStatsReporter toy 5 [] 60000000000) report_120"
  let ?s = "\<lparr>PodName = [], ProcessUptime = 0::real, Stat_RequestCount = 2,
      Stat_ProxiedRequestCount = 0, AverageConcurrentRequests = 2,
      AverageProxiedConcurrentRequests = 0\<rparr>"
  have a: "Load (stat ?r) = Some ?s"
    by (simp add: Report_def NewProtobufStatsReporter_def Load_def Store_def toy_def
        report_120_def time_Since_def)
  have b: "proto_Marshal toy ?s = Inl ''empty pod name''"
    by (simp add: toy_def toy_Marshal_def)
  have c: "body (ServeHTTP toy ?r []) \<noteq>
     bytes_of
       (''An error has occurred while serving metrics:'' @ [CHR 0x0A, CHR 0x0A] @
        ''empty pod name'')"
    by (simp add: ServeHTTP_encode_error [OF a b] bytes_of_def)
  from a b c show ?thesis
    by simp
qed

text \<open>
  Claim C10 (no content type on the error paths). When the cell is empty, or when it
  holds a snapshot on which \<^verbatim>\<open>proto.Marshal\<close> fails, \<^verbatim>\<open>ServeHTTP\<close> makes no call of
  \<^verbatim>\<open>header.Set\<close> at all: the header assignments of the writer are those it had before,
  and in particular \<^verbatim>\<open>Content-Type\<close> is not set to \<^verbatim>\<open>network.ProtoAcceptContent\<close>.
  The only run of \<^verbatim>\<open>ServeHTTP\<close> with a header assignment is the one in which
  \<^verbatim>\<open>proto.Marshal\<close> returned a buffer.
\<close>

theorem error_paths_set_no_header:
  assumes "Load (stat r) = None \<or>
           (\<exists>s e. Load (stat r) = Some s \<and> proto_Marshal ex s = Inl e)"
  shows "header_sets (ServeHTTP ex r w) = header_sets w \<and>
         header_sets (ServeHTTP ex r []) = [] \<and>
         header_Set contentTypeHeader (ProtoAcceptContent ex) \<notin> set (ServeHTTP ex r [])"
  using assms
proof
  assume "Load (stat r) = None"
  then show ?thesis
    by (simp add: ServeHTTP_empty header_sets_append)
next
  assume "\<exists>s e. Load (stat r) = Some s \<and> proto_Marshal ex s = Inl e"
  then obtain s e where "Load (stat r) = Some s" and "proto_Marshal ex s = Inl e"
    by blast
  then show ?thesis
    by (simp add: ServeHTTP_encode_error header_sets_append)
qed

theorem error_paths_set_no_header_witness:
  "Load (stat (NewProtobufStatsReporter toy 5 ''pod-a'' 60000000000)) = None \<and>
   header_sets (ServeHTTP toy (NewProtobufStatsReporter toy 5 ''pod-a'' 60000000000) [])
     = [] \<and>
   header_Set contentTypeHeader (ProtoAcceptContent toy)
     \<notin> set (ServeHTTP toy (NewProtobufStatsReporter toy 5 ''pod-a'' 60000000000) []) \<and>
   (\<exists>s e. Load (stat (Report toy 5 (NewProtobufStatsReporter toy 5 [] 60000000000)
              report_120)) = Some s \<and> proto_Marshal toy s = Inl e) \<and>
   header_sets (ServeHTTP toy
     (Report toy 5 (NewProtobufStatsReporter toy 5 [] 60000000000) report_120) []) = []"
proof -
  let ?r = "Report toy 5 (NewProtobufStatsReporter toy 5 [] 60000000000) report_120"
  have a: "Load (stat (NewProtobufStatsReporter toy 5 ''pod-a'' 60000000000)) = None"
    by (simp add: NewProtobufStatsReporter_def Load_def)
  have b: "\<exists>s e. Load (stat ?r) = Some s \<and> proto_Marshal toy s = Inl e"
    by (simp add: Report_def NewProtobufStatsReporter_def Load_def Store_def toy_def
        toy_Marshal_def)
  from error_paths_set_no_header
         [of "NewProtobufStatsReporter toy 5 ''pod-a'' 60000000000" toy "[]"]
       error_paths_set_no_header [of ?r toy "[]"] a b
  show ?thesis
    by blast
qed

text \<open>
  The converse: a run of \<^verbatim>\<open>ServeHTTP\<close> that assigns to the header is one in which the
  cell held a snapshot and \<^verbatim>\<open>proto.Marshal\<close> returned a buffer for it.
\<close>

lemma header_set_only_after_encode:
  assumes "header_sets (ServeHTTP ex r []) \<noteq> []"
  shows "\<exists>s buf. Load (stat r) = Some s \<and> proto_Marshal ex s = Inr buf"
proof (cases "Load (stat r)")
  case None
  with assms show ?thesis
    by (simp add: ServeHTTP_empty)
next
  case (Some s)
  show ?thesis
  proof (cases "proto_Marshal ex s")
    case (Inl e)
    with Some assms show ?thesis
      by (simp add: ServeHTTP_encode_error)
  next
    case (Inr buf)
    with Some show ?thesis
      by simp
  qed
qed

subsection \<open>Sequences of invocations\<close>

lemma Report_cong:
  assumes "podName r = podName r'" and "startTime r = startTime r'"
    and "reportingPeriodSeconds r = reportingPeriodSeconds r'"
  shows "stat (Report ex now r R) = stat (Report ex now r' R)"
  using assms by (simp add: Report_def Store_def)

text \<open>
  Claim C6 (monotonic replacement). Let the invocations \<open>pre\<close> (the first \<open>N - 1\<close>
  reports, with any scrapes between them) be followed by the \<open>N\<close>-th report \<open>R\<close>,
  made at the time \<open>now\<close>. Then the cell holds the snapshot built from \<open>R\<close>, \<open>now\<close>
  and the three fields fixed at construction, and from nothing of \<open>pre\<close>. A following
  \<^verbatim>\<open>ServeHTTP\<close> hands that snapshot, and no other, to \<^verbatim>\<open>proto.Marshal\<close>, and its
  whole response is determined by it: when the encoder returns a buffer for that
  snapshot, the response sets the content type and its body is that buffer; when the
  encoder fails on it, the response is the error reply with the encoder's text.
\<close>

theorem monotonic_replacement:
  "Load (stat (fst (run ex r (pre @ [Call_Report now R])))) =
     Some \<lparr>PodName = podName r,
           ProcessUptime = Duration_Seconds ex (time_Sub ex now (startTime r)),
           Stat_RequestCount = float64_quo ex (RequestCount R) (reportingPeriodSeconds r),
           Stat_ProxiedRequestCount =
             float64_quo ex (ProxiedRequestCount R) (reportingPeriodSeconds r),
           AverageConcurrentRequests = AverageConcurrency R,
           AverageProxiedConcurrentRequests = AverageProxiedConcurrency R\<rparr> \<and>
   ServeHTTP ex (fst (run ex r (pre @ [Call_Report now R]))) w =
     w @ [w_Header,
          Marshal_call
            \<lparr>PodName = podName r,
             ProcessUptime = Duration_Seconds ex (time_Sub ex now (startTime r)),
             Stat_RequestCount =
               float64_quo ex (RequestCount R) (reportingPeriodSeconds r),
             Stat_ProxiedRequestCount =
               float64_quo ex (ProxiedRequestCount R) (reportingPeriodSeconds r),
             AverageConcurrentRequests = AverageConcurrency R,
             AverageProxiedConcurrentRequests = AverageProxiedConcurrency R\<rparr>] @
     (case proto_Marshal ex
        \<lparr>PodName = podName r,
         ProcessUptime = Duration_Seconds ex (time_Sub ex now (startTime r)),
         Stat_RequestCount = float64_quo ex (RequestCount R) (reportingPeriodSeconds r),
         Stat_ProxiedRequestCount =
           float64_quo ex (ProxiedRequestCount R) (reportingPeriodSeconds r),
         AverageConcurrentRequests = AverageConcurrency R,
         AverageProxiedConcurrentRequests = AverageProxiedConcurrency R\<rparr> of
        Inl e \<Rightarrow>
          [http_Error
             (''An error has occurred while serving metrics:'' @ [CHR 0x0A, CHR 0x0A] @ e)
             500]
      | Inr buf \<Rightarrow>
          [header_Set ''Content-Type'' (ProtoAcceptContent ex), w_Write buf]) \<and>
   body (ServeHTTP ex (fst (run ex r (pre @ [Call_Report now R]))) []) =
     (case proto_Marshal ex
        \<lparr>PodName = podName r,
         ProcessUptime = Duration_Seconds ex (time_Sub ex now (startTime r)),
         Stat_RequestCount = float64_quo ex (RequestCount R) (reportingPeriodSeconds r),
         Stat_ProxiedRequestCount =
           float64_quo ex (ProxiedRequestCount R) (reportingPeriodSeconds r),
         AverageConcurrentRequests = AverageConcurrency R,
         AverageProxiedConcurrentRequests = AverageProxiedConcurrency R\<rparr> of
        Inl e \<Rightarrow>
          bytes_of
            (''An error has occurred while serving metrics:'' @ [CHR 0x0A, CHR 0x0A] @ e) @
          [0x0A]
      | Inr buf \<Rightarrow> buf)"
proof -
  let ?r' = "fst (run ex r (pre @ [Call_Report now R]))"
  let ?snap = "\<lparr>PodName = podName r,
           ProcessUptime = Duration_Seconds ex (time_Sub ex now (startTime r)),
           Stat_RequestCount = float64_quo ex (RequestCount R) (reportingPeriodSeconds r),
           Stat_ProxiedRequestCount =
             float64_quo ex (ProxiedRequestCount R) (reportingPeriodSeconds r),
           AverageConcurrentRequests = AverageConcurrency R,
           AverageProxiedConcurrentRequests = AverageProxiedConcurrency R\<rparr>"
  have "stat ?r' = stat (Report ex now (fst (run ex r pre)) R)"
    by (simp only: run_snoc_Report)
  also have "\<dots> = stat (Report ex now r R)"
    using run_fixed [of ex r pre] by (intro Report_cong) simp_all
  also have "\<dots> = Some ?snap"
    by (simp add: Report_def Store_def time_Since_def)
  finally have cell: "Load (stat ?r') = Some ?snap"
    by (simp add: Load_def)
  show ?thesis
  proof (cases "proto_Marshal ex ?snap")
    case (Inl e)
    show ?thesis
      by (simp add: cell Inl ServeHTTP_encode_error [OF cell Inl])
  next
    case (Inr buf)
    show ?thesis
      by (simp add: cell Inr ServeHTTP_encoded [OF cell Inr])
  qed
qed

theorem monotonic_replacement_witness:
  "ServeHTTP toy
     (fst (run toy (NewProtobufStatsReporter toy 5 ''pod-a'' 60000000000)
        ([Call_ServeHTTP, Call_Report 7 report_30, Call_ServeHTTP] @
         [Call_Report 9 report_120]))) [] =
     [w_Header,
      Marshal_call
        \<lparr>PodName = ''pod-a'', ProcessUptime = 1 / 250000000, Stat_RequestCount = 2,
         Stat_ProxiedRequestCount = 0, AverageConcurrentRequests = 2,
         AverageProxiedConcurrentRequests = 0\<rparr>,
      header_Set ''Content-Type'' ''application/protobuf'', w_Write [5]] \<and>
   body (ServeHTTP toy
     (fst (run toy (NewProtobufStatsReporter toy 5 ''pod-a'' 60000000000)
        ([Call_ServeHTTP, Call_Report 7 report_30, Call_ServeHTTP] @
         [Call_Report 9 report_120]))) []) = [5]"
  using monotonic_replacement
    [of toy "NewProtobufStatsReporter toy 5 ''pod-a'' 60000000000"
        "[Call_ServeHTTP, Call_Report 7 report_30, Call_ServeHTTP]" 9 report_120 "[]"]
  by (simp add: NewProtobufStatsReporter_def toy_def toy_Marshal_def report_120_def)

lemma invoke_name:
  assumes "\<forall>s. stat r = Some s \<longrightarrow> PodName s = podName r"
  shows "\<forall>s. stat (fst (invoke ex r c)) = Some s \<longrightarrow> PodName s = podName r"
  using assms by (cases c) (auto simp: invoke_def Report_def Store_def)

lemma run_name:
  assumes "\<forall>s. stat r = Some s \<longrightarrow> PodName s = podName r"
  shows "\<forall>s. stat (fst (run ex r cs)) = Some s \<longrightarrow> PodName s = podName r"
  using assms
proof (induction cs arbitrary: r)
  case Nil
  then show ?case by simp
next
  case (Cons c cs)
  obtain r' out where i: "invoke ex r c = (r', out)"
    by (cases "invoke ex r c")
  obtain r'' outs where s: "run ex r' cs = (r'', outs)"
    by (cases "run ex r' cs")
  have r': "r' = fst (invoke ex r c)"
    using i by simp
  have n: "podName r' = podName r"
    unfolding r' by (rule invoke_fixed)
  have "\<forall>s. stat r' = Some s \<longrightarrow> PodName s = podName r'"
    unfolding n unfolding r' by (rule invoke_name) (rule Cons.prems)
  from Cons.IH [OF this] n i s show ?case
    by simp
qed

text \<open>
  Claim C7 (identity stability). Take a reporter constructed with the name \<open>X\<close> and any
  sequence \<open>cs\<close> of invocations on it. Whatever snapshot the cell then holds carries the
  pod name \<open>X\<close>. Every snapshot that is ever published is the content of the cell right
  after its \<^verbatim>\<open>Report\<close>, that is after some such sequence.
\<close>

theorem identity_stability:
  assumes "Load (stat (fst (run ex (NewProtobufStatsReporter ex t0 X P) cs))) = Some s"
  shows "PodName s = X"
proof -
  have "\<forall>s. stat (NewProtobufStatsReporter ex t0 X P) = Some s \<longrightarrow>
          PodName s = podName (NewProtobufStatsReporter ex t0 X P)"
    by (simp add: New_fields)
  from run_name [OF this, of ex cs] assms show ?thesis
    by (simp add: Load_def New_fields)
qed

theorem identity_stability_witness:
  "Load (stat (fst (run toy (NewProtobufStatsReporter toy 5 ''pod-a'' 60000000000)
      [Call_ServeHTTP, Call_Report 7 report_30, Call_ServeHTTP, Call_Report 9 report_120])))
     = Some \<lparr>PodName = ''pod-a'', ProcessUptime = 1 / 250000000, Stat_RequestCount = 2,
             Stat_ProxiedRequestCount = 0, AverageConcurrentRequests = 2,
             AverageProxiedConcurrentRequests = 0\<rparr> \<and>
   PodName \<lparr>PodName = ''pod-a'', ProcessUptime = 1 / 250000000 :: real,
            Stat_RequestCount = 2 :: real, Stat_ProxiedRequestCount = 0 :: real,
            AverageConcurrentRequests = 2 :: real,
            AverageProxiedConcurrentRequests = 0 :: real\<rparr> = ''pod-a''"
proof -
  have a: "Load (stat (fst (run toy (NewProtobufStatsReporter toy 5 ''pod-a'' 60000000000)
      [Call_ServeHTTP, Call_Report 7 report_30, Call_ServeHTTP, Call_Report 9 report_120])))
     = Some \<lparr>PodName = ''pod-a'', ProcessUptime = 1 / 250000000, Stat_RequestCount = 2,
             Stat_ProxiedRequestCount = 0, AverageConcurrentRequests = 2,
             AverageProxiedConcurrentRequests = 0\<rparr>"
    by (simp add: invoke_def Report_def NewProtobufStatsReporter_def Load_def Store_def
        toy_def report_120_def report_30_def time_Since_def)
  from identity_stability [OF a] a show ?thesis
    by blast
qed

end
